theory Spec2Isabelle
  imports Main
begin

section \<open>SnipsPlayer: the music player wrapper of snips-action-music\<close>

text \<open>
  A shallow embedding of \<^verbatim>\<open>src/SnipsPlayer.ts\<close>. The class is a record of its fields;
  every method takes the object (\<open>this\<close>) and returns the settled promise together with
  the updated object. The MPD client (\<^verbatim>\<open>mpc-js\<close>) is not part of the repository: what it
  answers is a parameter (\<open>MPC\<close>), and what the wrapper sends to it is recorded, in
  order, in the field \<open>calls\<close>.
\<close>

subsection \<open>JavaScript values\<close>

text \<open>
  A \<^verbatim>\<open>number\<close> is an integer or \<^verbatim>\<open>NaN\<close> (fractions and infinities are left out: they
  are truthy like every non-zero integer). Strings are lists of code units below 256.
\<close>

datatype number = Num int | NaN

fun truthy_number :: "number \<Rightarrow> bool" where
  "truthy_number (Num n) = (n \<noteq> 0)"
| "truthy_number NaN = False"

definition truthy_string :: "string \<Rightarrow> bool" where
  "truthy_string s = (s \<noteq> [])"

text \<open>
  \<^verbatim>\<open>String.prototype.toLowerCase\<close> on code units below 256: \<^verbatim>\<open>A\<close>..\<^verbatim>\<open>Z\<close> and the
  Latin-1 capitals U+00C0..U+00DE (without the multiplication sign U+00D7) move up by 32.
\<close>

definition toLowerCase_char :: "char \<Rightarrow> char" where
  "toLowerCase_char c =
     (let n = (of_char c :: nat)
      in if (65 \<le> n \<and> n \<le> 90) \<or> (192 \<le> n \<and> n \<le> 222 \<and> n \<noteq> 215)
         then char_of (n + 32) else c)"

definition toLowerCase :: "string \<Rightarrow> string" where
  "toLowerCase s = map toLowerCase_char s"

subsection \<open>The MPD client\<close>

type_synonym criteria = "(string \<times> string) list"

datatype song = Song string

record status =
  state :: string

text \<open>Every command the wrapper sends to \<^verbatim>\<open>this.player\<close>.\<close>

datatype mpc_call =
    AddListener string
  | ConnectTCP string number
  | Previous | Next | Play | Pause | Stop
  | Clear
  | Status | CurrentSong
  | SetVolume number
  | Search criteria | SearchAdd criteria
  | ListPlaylist string | Load string

text \<open>
  What the client library rejects a promise with is its own value (\<open>mpc_error\<close>); an
  error the wrapper throws itself is \<open>Error msg\<close>, the JavaScript \<^verbatim>\<open>new Error(msg)\<close>.
  The library's rejections are kept apart from the wrapper's named conditions.
\<close>

datatype mpc_error = MPCError string

datatype failure = Error string | Rejected mpc_error

type_synonym 'a reply = "mpc_error + 'a"

type_synonym 'a promise = "failure + 'a"

text \<open>The answers of the client, one per command of \<^verbatim>\<open>mpc-js\<close> that the wrapper uses.\<close>

record MPC =
  playback_previous :: "unit reply"
  playback_next :: "unit reply"
  playback_play :: "unit reply"
  playback_pause :: "unit reply"
  playback_stop :: "unit reply"
  currentPlaylist_clear :: "unit reply"
  status_status :: "status reply"
  status_currentSong :: "song reply"
  playbackOptions_setVolume :: "number \<Rightarrow> unit reply"
  database_search :: "criteria \<Rightarrow> song list reply"
  database_searchAdd :: "criteria \<Rightarrow> unit reply"
  storedPlaylists_listPlaylist :: "string \<Rightarrow> string list reply"
  storedPlaylists_load :: "string \<Rightarrow> unit reply"

subsection \<open>The logger\<close>

datatype log_arg = Text string | StatusObj status | Names "string list"

datatype log_entry = Info log_arg | Debug log_arg

subsection \<open>The class\<close>

record SnipsPlayerInitOptions =
  options_host :: "string option"
  options_port :: "number option"
  options_defaultVolume :: "number option"
  options_enableRandom :: "bool option"

record 'd SnipsPlayer =
  dialog :: 'd
  host :: string
  port :: number
  volume :: number
  volumeSilence :: number
  enableRandom :: bool
  isReady :: bool
  calls :: "mpc_call list"
  logs :: "log_entry list"

subsection \<open>Promises\<close>

text \<open>
  A promise of the client, as the wrapper's caller sees it once it is settled, and a
  command to the client: the command is recorded and the client's promise returned.
\<close>

definition settle :: "'a reply \<Rightarrow> 'a promise" where
  "settle r = (case r of Inl e \<Rightarrow> Inl (Rejected e) | Inr v \<Rightarrow> Inr v)"

definition send :: "mpc_call \<Rightarrow> 'a reply \<Rightarrow> 'd SnipsPlayer \<Rightarrow> 'a promise \<times> 'd SnipsPlayer" where
  "send c r this = (settle r, this\<lparr>calls := calls this @ [c]\<rparr>)"

definition promise_then ::
  "'a promise \<times> 's \<Rightarrow> ('a \<Rightarrow> 's \<Rightarrow> 'b promise \<times> 's) \<Rightarrow> 'b promise \<times> 's" where
  "promise_then p f = (case p of (Inl e, this) \<Rightarrow> (Inl e, this) | (Inr v, this) \<Rightarrow> f v this)"

definition promise_catch ::
  "'a promise \<times> 's \<Rightarrow> (failure \<Rightarrow> 's \<Rightarrow> 'a promise \<times> 's) \<Rightarrow> 'a promise \<times> 's" where
  "promise_catch p h = (case p of (Inl e, this) \<Rightarrow> h e this | (Inr v, this) \<Rightarrow> (Inr v, this))"

definition throw :: "string \<Rightarrow> 's \<Rightarrow> 'a promise \<times> 's" where
  "throw msg this = (Inl (Error msg), this)"

definition logger_info :: "log_arg \<Rightarrow> 'd SnipsPlayer \<Rightarrow> 'd SnipsPlayer" where
  "logger_info a this = this\<lparr>logs := logs this @ [Info a]\<rparr>"

definition logger_debug :: "log_arg \<Rightarrow> 'd SnipsPlayer \<Rightarrow> 'd SnipsPlayer" where
  "logger_debug a this = this\<lparr>logs := logs this @ [Debug a]\<rparr>"

subsection \<open>Player controlling commands\<close>

definition previous :: "MPC \<Rightarrow> 'd SnipsPlayer \<Rightarrow> unit promise \<times> 'd SnipsPlayer" where
  "previous mpc this = send Previous (playback_previous mpc) this"

definition next_track :: "MPC \<Rightarrow> 'd SnipsPlayer \<Rightarrow> unit promise \<times> 'd SnipsPlayer" where
  "next_track mpc this = send Next (playback_next mpc) this"

definition play :: "MPC \<Rightarrow> 'd SnipsPlayer \<Rightarrow> unit promise \<times> 'd SnipsPlayer" where
  "play mpc this = send Play (playback_play mpc) this"

definition pause :: "MPC \<Rightarrow> 'd SnipsPlayer \<Rightarrow> unit promise \<times> 'd SnipsPlayer" where
  "pause mpc this = send Pause (playback_pause mpc) this"

definition stop :: "MPC \<Rightarrow> 'd SnipsPlayer \<Rightarrow> unit promise \<times> 'd SnipsPlayer" where
  "stop mpc this = send Stop (playback_stop mpc) this"

definition clear :: "MPC \<Rightarrow> 'd SnipsPlayer \<Rightarrow> unit promise \<times> 'd SnipsPlayer" where
  "clear mpc this = send Clear (currentPlaylist_clear mpc) this"

definition getStatus :: "MPC \<Rightarrow> 'd SnipsPlayer \<Rightarrow> status promise \<times> 'd SnipsPlayer" where
  "getStatus mpc this = send Status (status_status mpc) this"

definition getCurrentSong :: "MPC \<Rightarrow> 'd SnipsPlayer \<Rightarrow> song promise \<times> 'd SnipsPlayer" where
  "getCurrentSong mpc this = send CurrentSong (status_currentSong mpc) this"

definition getPlayingInfo :: "MPC \<Rightarrow> 'd SnipsPlayer \<Rightarrow> song promise \<times> 'd SnipsPlayer" where
  "getPlayingInfo mpc this =
     promise_then (getStatus mpc this) (\<lambda>res this.
       let this = logger_debug (StatusObj res) this
       in if state res = ''stop'' \<or> state res = ''pause''
          then throw ''nothingPlaying'' this
          else getCurrentSong mpc this)"

subsection \<open>Volume\<close>

definition setVolume :: "MPC \<Rightarrow> number \<Rightarrow> 'd SnipsPlayer \<Rightarrow> unit promise \<times> 'd SnipsPlayer" where
  "setVolume mpc v this = send (SetVolume v) (playbackOptions_setVolume mpc v) this"

definition saveVolume :: "MPC \<Rightarrow> number \<Rightarrow> 'd SnipsPlayer \<Rightarrow> unit promise \<times> 'd SnipsPlayer" where
  "saveVolume mpc v this =
     (let this = this\<lparr>volume := v\<rparr>
      in setVolume mpc (volume this) this)"

definition setVolumeToSilence :: "MPC \<Rightarrow> 'd SnipsPlayer \<Rightarrow> unit promise \<times> 'd SnipsPlayer" where
  "setVolumeToSilence mpc this = setVolume mpc (volumeSilence this) this"

definition setVolumeToNormal :: "MPC \<Rightarrow> 'd SnipsPlayer \<Rightarrow> unit promise \<times> 'd SnipsPlayer" where
  "setVolumeToNormal mpc this = setVolume mpc (volume this) this"

subsection \<open>The playMusic intent: a playlist from search criteria\<close>

text \<open>
  An argument that is \<^verbatim>\<open>undefined\<close> is \<open>None\<close>; the source's \<^verbatim>\<open>x ? x : ''\<close> gives the
  empty string for it, and for the empty string itself.
\<close>

definition or_empty :: "string option \<Rightarrow> string" where
  "or_empty x = (case x of None \<Rightarrow> [] | Some s \<Rightarrow> (if truthy_string s then s else []))"

definition checkExistance ::
  "MPC \<Rightarrow> string option \<Rightarrow> string option \<Rightarrow> string option \<Rightarrow> 'd SnipsPlayer
     \<Rightarrow> song list promise \<times> 'd SnipsPlayer" where
  "checkExistance mpc song album artist this =
     send (Search [(''Title'', or_empty song), (''Album'', or_empty album),
                   (''Artist'', or_empty artist)])
          (database_search mpc [(''Title'', or_empty song), (''Album'', or_empty album),
                                (''Artist'', or_empty artist)])
          this"

definition createPlayList ::
  "MPC \<Rightarrow> string option \<Rightarrow> string option \<Rightarrow> string option \<Rightarrow> 'd SnipsPlayer
     \<Rightarrow> unit promise \<times> 'd SnipsPlayer" where
  "createPlayList mpc song album artist this =
     send (SearchAdd [(''Title'', or_empty song), (''Album'', or_empty album),
                      (''Artist'', or_empty artist)])
          (database_searchAdd mpc [(''Title'', or_empty song), (''Album'', or_empty album),
                                   (''Artist'', or_empty artist)])
          this"

definition createPlayListIfPossible ::
  "MPC \<Rightarrow> string option \<Rightarrow> string option \<Rightarrow> string option \<Rightarrow> 'd SnipsPlayer
     \<Rightarrow> unit promise \<times> 'd SnipsPlayer" where
  "createPlayListIfPossible mpc song album artist this =
     promise_then
       (promise_then (checkExistance mpc song album artist this) (\<lambda>res this.
          if length res = 0 then throw ''notFound'' this else clear mpc this))
       (\<lambda>_ this. createPlayList mpc song album artist this)"

subsection \<open>Stored playlists\<close>

definition checkExistancePlaylist ::
  "MPC \<Rightarrow> string \<Rightarrow> 'd SnipsPlayer \<Rightarrow> string list promise \<times> 'd SnipsPlayer" where
  "checkExistancePlaylist mpc playlist this =
     send (ListPlaylist (toLowerCase playlist @ ''.m3u''))
          (storedPlaylists_listPlaylist mpc (toLowerCase playlist @ ''.m3u'')) this"

definition loadSongFromSavedPlaylist ::
  "MPC \<Rightarrow> string \<Rightarrow> 'd SnipsPlayer \<Rightarrow> unit promise \<times> 'd SnipsPlayer" where
  "loadSongFromSavedPlaylist mpc playlist this =
     send (Load (toLowerCase playlist @ ''.m3u''))
          (storedPlaylists_load mpc (toLowerCase playlist @ ''.m3u'')) this"

definition loadPlaylistIfPossible ::
  "MPC \<Rightarrow> string \<Rightarrow> 'd SnipsPlayer \<Rightarrow> unit promise \<times> 'd SnipsPlayer" where
  "loadPlaylistIfPossible mpc playlist this =
     promise_then
       (promise_catch
          (promise_then (checkExistancePlaylist mpc playlist this) (\<lambda>res this.
             if length res = 0
             then (let this = logger_debug (Names res) this;
                       this = logger_debug (Text ''did not pass checking'') this
                   in throw ''notFound'' this)
             else clear mpc this))
          (\<lambda>_ this. throw ''notFound'' this))
       (\<lambda>_ this. loadSongFromSavedPlaylist mpc playlist this)"

subsection \<open>Construction and the connection's events\<close>

definition init :: "MPC \<Rightarrow> 'd SnipsPlayer \<Rightarrow> 'd SnipsPlayer" where
  "init mpc this =
     (let this = this\<lparr>isReady := True\<rparr>;
          this = snd (setVolumeToNormal mpc this);
          this = snd (stop mpc this)
      in logger_info (Text ''MPD client is ready to use'') this)"

definition startMonitoring :: "'d SnipsPlayer \<Rightarrow> 'd SnipsPlayer" where
  "startMonitoring this =
     this\<lparr>calls := calls this
        @ [AddListener ''ready'', AddListener ''socket-error'', AddListener ''socket-end'']\<rparr>"

text \<open>
  The three listeners that \<^verbatim>\<open>__startMonitoring\<close> registers, by the name of the event;
  an event with no listener does nothing. A listener that throws gives \<open>Inl\<close>.
\<close>

definition listener :: "MPC \<Rightarrow> string \<Rightarrow> 'd SnipsPlayer \<Rightarrow> unit promise \<times> 'd SnipsPlayer" where
  "listener mpc event this =
     (if event = ''ready'' then (Inr (), init mpc this)
      else if event = ''socket-error'' then throw ''mpdConnectionFaild'' (this\<lparr>isReady := False\<rparr>)
      else if event = ''socket-end'' then throw ''mpdConnectionEnd'' (this\<lparr>isReady := False\<rparr>)
      else (Inr (), this))"

definition constructor :: "'d \<Rightarrow> SnipsPlayerInitOptions \<Rightarrow> 'd SnipsPlayer" where
  "constructor dlg options =
     (let this = \<lparr>dialog = dlg, host = ''localhost'', port = Num 6600, volume = Num 80,
                  volumeSilence = Num 20, enableRandom = True, isReady = False,
                  calls = [], logs = []\<rparr>;
          this = (case options_host options of
                    Some h \<Rightarrow> if truthy_string h then this\<lparr>host := h\<rparr> else this
                  | None \<Rightarrow> this);
          this = (case options_port options of
                    Some p \<Rightarrow> if truthy_number p then this\<lparr>port := p\<rparr> else this
                  | None \<Rightarrow> this);
          this = (case options_defaultVolume options of
                    Some v \<Rightarrow> if truthy_number v then this\<lparr>volume := v\<rparr> else this
                  | None \<Rightarrow> this);
          this = (case options_enableRandom options of
                    Some b \<Rightarrow> if b then this\<lparr>enableRandom := b\<rparr> else this
                  | None \<Rightarrow> this);
          this = startMonitoring this
      in this\<lparr>calls := calls this @ [ConnectTCP (host this) (port this)]\<rparr>)"

subsection \<open>Sequences of operations\<close>

text \<open>
  The commands sent to the client between two states of the same object.
\<close>

definition issued :: "'d SnipsPlayer \<Rightarrow> 'd SnipsPlayer \<Rightarrow> mpc_call list" where
  "issued before after = drop (length (calls before)) (calls after)"

text \<open>
  Every method of the class as one operation, and the events of the connection, so that
  a lifetime of the object is a list of operations, each with the answers the client
  gives while it runs. The values the promises resolve with are put in one type.
\<close>

datatype answer =
    NoValue | SongValue song | StatusValue status | SongsValue "song list"
  | NamesValue "string list"

datatype operation =
    Call_previous | Call_next | Call_play | Call_pause | Call_stop | Call_clear
  | Call_getPlayingInfo | Call_getStatus | Call_getCurrentSong
  | Call_setVolume number | Call_saveVolume number
  | Call_setVolumeToSilence | Call_setVolumeToNormal
  | Call_checkExistance "string option" "string option" "string option"
  | Call_createPlayList "string option" "string option" "string option"
  | Call_createPlayListIfPossible "string option" "string option" "string option"
  | Call_checkExistancePlaylist string
  | Call_loadSongFromSavedPlaylist string
  | Call_loadPlaylistIfPossible string
  | Call_init | Call_startMonitoring
  | Event string

definition answered :: "('a \<Rightarrow> answer) \<Rightarrow> 'a promise \<times> 's \<Rightarrow> answer promise \<times> 's" where
  "answered f p = ((case fst p of Inl e \<Rightarrow> Inl e | Inr v \<Rightarrow> Inr (f v)), snd p)"

fun exec :: "MPC \<Rightarrow> operation \<Rightarrow> 'd SnipsPlayer \<Rightarrow> answer promise \<times> 'd SnipsPlayer" where
  "exec mpc Call_previous this = answered (\<lambda>_. NoValue) (previous mpc this)"
| "exec mpc Call_next this = answered (\<lambda>_. NoValue) (next_track mpc this)"
| "exec mpc Call_play this = answered (\<lambda>_. NoValue) (play mpc this)"
| "exec mpc Call_pause this = answered (\<lambda>_. NoValue) (pause mpc this)"
| "exec mpc Call_stop this = answered (\<lambda>_. NoValue) (stop mpc this)"
| "exec mpc Call_clear this = answered (\<lambda>_. NoValue) (clear mpc this)"
| "exec mpc Call_getPlayingInfo this = answered SongValue (getPlayingInfo mpc this)"
| "exec mpc Call_getStatus this = answered StatusValue (getStatus mpc this)"
| "exec mpc Call_getCurrentSong this = answered SongValue (getCurrentSong mpc this)"
| "exec mpc (Call_setVolume v) this = answered (\<lambda>_. NoValue) (setVolume mpc v this)"
| "exec mpc (Call_saveVolume v) this = answered (\<lambda>_. NoValue) (saveVolume mpc v this)"
| "exec mpc Call_setVolumeToSilence this = answered (\<lambda>_. NoValue) (setVolumeToSilence mpc this)"
| "exec mpc Call_setVolumeToNormal this = answered (\<lambda>_. NoValue) (setVolumeToNormal mpc this)"
| "exec mpc (Call_checkExistance song album artist) this =
     answered SongsValue (checkExistance mpc song album artist this)"
| "exec mpc (Call_createPlayList song album artist) this =
     answered (\<lambda>_. NoValue) (createPlayList mpc song album artist this)"
| "exec mpc (Call_createPlayListIfPossible song album artist) this =
     answered (\<lambda>_. NoValue) (createPlayListIfPossible mpc song album artist this)"
| "exec mpc (Call_checkExistancePlaylist playlist) this =
     answered NamesValue (checkExistancePlaylist mpc playlist this)"
| "exec mpc (Call_loadSongFromSavedPlaylist playlist) this =
     answered (\<lambda>_. NoValue) (loadSongFromSavedPlaylist mpc playlist this)"
| "exec mpc (Call_loadPlaylistIfPossible playlist) this =
     answered (\<lambda>_. NoValue) (loadPlaylistIfPossible mpc playlist this)"
| "exec mpc Call_init this = (Inr NoValue, init mpc this)"
| "exec mpc Call_startMonitoring this = (Inr NoValue, startMonitoring this)"
| "exec mpc (Event event) this = answered (\<lambda>_. NoValue) (listener mpc event this)"

fun run :: "(MPC \<times> operation) list \<Rightarrow> 'd SnipsPlayer \<Rightarrow> 'd SnipsPlayer" where
  "run [] this = this"
| "run ((mpc, x) # xs) this = run xs (snd (exec mpc x this))"

subsection \<open>A client for the examples\<close>

text \<open>
  A client that is playing, finds one song for every search and one entry in every
  stored playlist, and accepts every command.
\<close>

definition mpc_playing :: MPC where
  "mpc_playing =
     \<lparr>playback_previous = Inr (), playback_next = Inr (), playback_play = Inr (),
      playback_pause = Inr (), playback_stop = Inr (), currentPlaylist_clear = Inr (),
      status_status = Inr \<lparr>state = ''play''\<rparr>,
      status_currentSong = Inr (Song ''a.mp3''),
      playbackOptions_setVolume = (\<lambda>_. Inr ()),
      database_search = (\<lambda>_. Inr [Song ''a.mp3'']),
      database_searchAdd = (\<lambda>_. Inr ()),
      storedPlaylists_listPlaylist = (\<lambda>_. Inr [''a.mp3'']),
      storedPlaylists_load = (\<lambda>_. Inr ())\<rparr>"

definition no_options :: SnipsPlayerInitOptions where
  "no_options =
     \<lparr>options_host = None, options_port = None, options_defaultVolume = None,
      options_enableRandom = None\<rparr>"

text \<open>The same client when nothing matches a search and the stored playlist is empty.\<close>

definition mpc_nothing_found :: MPC where
  "mpc_nothing_found =
     mpc_playing\<lparr>database_search := (\<lambda>_. Inr []),
                 storedPlaylists_listPlaylist := (\<lambda>_. Inr [])\<rparr>"

text \<open>The same client when it rejects the command that clears the current playlist.\<close>

definition mpc_clear_fails :: MPC where
  "mpc_clear_fails =
     mpc_playing\<lparr>currentPlaylist_clear := Inl (MPCError ''Connection closed'')\<rparr>"

text \<open>The same client when it rejects the loading of a stored playlist.\<close>

definition mpc_load_fails :: MPC where
  "mpc_load_fails =
     mpc_playing\<lparr>storedPlaylists_load := (\<lambda>_. Inl (MPCError ''No such playlist''))\<rparr>"

text \<open>The same client when the player is paused.\<close>

definition mpc_paused :: MPC where
  "mpc_paused = mpc_playing\<lparr>status_status := Inr \<lparr>state = ''pause''\<rparr>\<rparr>"

section \<open>Basic facts\<close>

lemmas method_defs =
  send_def promise_then_def promise_catch_def throw_def logger_info_def logger_debug_def
  previous_def next_track_def play_def pause_def stop_def clear_def getStatus_def
  getCurrentSong_def getPlayingInfo_def setVolume_def saveVolume_def setVolumeToSilence_def
  setVolumeToNormal_def checkExistance_def createPlayList_def createPlayListIfPossible_def
  checkExistancePlaylist_def loadSongFromSavedPlaylist_def loadPlaylistIfPossible_def
  init_def startMonitoring_def listener_def

lemma settle_simps [simp]:
  "settle (Inl e) = Inl (Rejected e)" "settle (Inr v) = Inr v"
  by (simp_all add: settle_def)

lemma settle_not_Error [simp]: "settle r \<noteq> Inl (Error msg)"
  by (cases r) simp_all

lemma or_empty_eq: "or_empty x = (case x of None \<Rightarrow> [] | Some s \<Rightarrow> s)"
  by (simp add: or_empty_def truthy_string_def split: option.splits)

lemma toLowerCase_My_Mix: "toLowerCase ''My Mix'' = ''my mix''"
  by code_simp

subsection \<open>The constructor, field by field\<close>

lemma constructor_host:
  "host (constructor d opts) =
     (case options_host opts of
        Some h \<Rightarrow> if h = [] then ''localhost'' else h
      | None \<Rightarrow> ''localhost'')"
  by (simp add: constructor_def startMonitoring_def truthy_string_def Let_def
           split: option.splits)

lemma constructor_port:
  "port (constructor d opts) =
     (case options_port opts of
        Some p \<Rightarrow> if truthy_number p then p else Num 6600
      | None \<Rightarrow> Num 6600)"
  by (simp add: constructor_def startMonitoring_def Let_def split: option.splits)

lemma constructor_volume:
  "volume (constructor d opts) =
     (case options_defaultVolume opts of
        Some v \<Rightarrow> if truthy_number v then v else Num 80
      | None \<Rightarrow> Num 80)"
  by (simp add: constructor_def startMonitoring_def Let_def split: option.splits)

lemma constructor_enableRandom: "enableRandom (constructor d opts) = True"
  by (simp add: constructor_def startMonitoring_def Let_def split: option.splits)

lemma constructor_volumeSilence: "volumeSilence (constructor d opts) = Num 20"
  by (simp add: constructor_def startMonitoring_def Let_def split: option.splits)

lemma constructor_calls:
  "calls (constructor d opts) =
     [AddListener ''ready'', AddListener ''socket-error'', AddListener ''socket-end'',
      ConnectTCP (host (constructor d opts)) (port (constructor d opts))]"
  by (simp add: constructor_def startMonitoring_def Let_def split: option.splits)

lemma truthy_number_iff: "truthy_number p \<longleftrightarrow> p \<noteq> Num 0 \<and> p \<noteq> NaN"
  by (cases p) simp_all

subsection \<open>The chained methods, case by case\<close>

lemma createPlayListIfPossible_cases:
  "createPlayListIfPossible mpc song album artist this =
     (let c = [(''Title'', case song of None \<Rightarrow> [] | Some s \<Rightarrow> s),
               (''Album'', case album of None \<Rightarrow> [] | Some s \<Rightarrow> s),
               (''Artist'', case artist of None \<Rightarrow> [] | Some s \<Rightarrow> s)] in
      case database_search mpc c of
        Inl e \<Rightarrow> (Inl (Rejected e), this\<lparr>calls := calls this @ [Search c]\<rparr>)
      | Inr res \<Rightarrow>
          if res = [] then (Inl (Error ''notFound''), this\<lparr>calls := calls this @ [Search c]\<rparr>)
          else (case currentPlaylist_clear mpc of
                  Inl e \<Rightarrow> (Inl (Rejected e), this\<lparr>calls := calls this @ [Search c, Clear]\<rparr>)
                | Inr _ \<Rightarrow> (settle (database_searchAdd mpc c),
                            this\<lparr>calls := calls this @ [Search c, Clear, SearchAdd c]\<rparr>)))"
  by (simp add: method_defs or_empty_eq Let_def split: sum.splits)

lemma loadPlaylistIfPossible_fst:
  "fst (loadPlaylistIfPossible mpc playlist this) =
     (case storedPlaylists_listPlaylist mpc (toLowerCase playlist @ ''.m3u'') of
        Inl e \<Rightarrow> Inl (Error ''notFound'')
      | Inr res \<Rightarrow>
          if res = [] then Inl (Error ''notFound'')
          else (case currentPlaylist_clear mpc of
                  Inl e \<Rightarrow> Inl (Error ''notFound'')
                | Inr _ \<Rightarrow> settle (storedPlaylists_load mpc (toLowerCase playlist @ ''.m3u''))))"
  by (simp add: method_defs Let_def split: sum.splits)

lemma loadPlaylistIfPossible_calls:
  "calls (snd (loadPlaylistIfPossible mpc playlist this)) =
     calls this @
     (let file = toLowerCase playlist @ ''.m3u'' in
      case storedPlaylists_listPlaylist mpc file of
        Inl e \<Rightarrow> [ListPlaylist file]
      | Inr res \<Rightarrow>
          if res = [] then [ListPlaylist file]
          else (case currentPlaylist_clear mpc of
                  Inl e \<Rightarrow> [ListPlaylist file, Clear]
                | Inr _ \<Rightarrow> [ListPlaylist file, Clear, Load file]))"
  by (simp add: method_defs Let_def split: sum.splits)

lemma getPlayingInfo_cases:
  "getPlayingInfo mpc this =
     (case status_status mpc of
        Inl e \<Rightarrow> (Inl (Rejected e), this\<lparr>calls := calls this @ [Status]\<rparr>)
      | Inr res \<Rightarrow>
          if state res = ''stop'' \<or> state res = ''pause''
          then (Inl (Error ''nothingPlaying''),
                this\<lparr>calls := calls this @ [Status],
                     logs := logs this @ [Debug (StatusObj res)]\<rparr>)
          else (settle (status_currentSong mpc),
                this\<lparr>calls := calls this @ [Status, CurrentSong],
                     logs := logs this @ [Debug (StatusObj res)]\<rparr>))"
  by (simp add: method_defs Let_def split: sum.splits)

subsection \<open>What no operation touches\<close>

lemma exec_volumeSilence: "volumeSilence (snd (exec mpc x this)) = volumeSilence this"
  by (cases x) (simp_all add: method_defs answered_def Let_def split: sum.splits)

lemma exec_enableRandom: "enableRandom (snd (exec mpc x this)) = enableRandom this"
  by (cases x) (simp_all add: method_defs answered_def Let_def split: sum.splits)

lemma run_frame:
  "volumeSilence (run steps this) = volumeSilence this
   \<and> enableRandom (run steps this) = enableRandom this"
proof (induction steps arbitrary: this)
  case Nil
  show ?case by simp
next
  case (Cons step steps)
  obtain mpc x where step: "step = (mpc, x)" by (cases step)
  show ?case
    by (simp add: step Cons.IH exec_volumeSilence exec_enableRandom)
qed

lemma exec_ignores_enableRandom:
  "exec mpc x (this\<lparr>enableRandom := b\<rparr>)
     = (fst (exec mpc x this), (snd (exec mpc x this))\<lparr>enableRandom := b\<rparr>)"
  by (cases x) (simp_all add: method_defs answered_def Let_def split: sum.splits)

section \<open>The claims\<close>

subsection \<open>C1: the settings after construction\<close>

text \<open>
  C1, as stated, fails: with the options \<^verbatim>\<open>{host: '', port: 0}\<close> both fields are present
  in the object, and the constructor still connects to \<^verbatim>\<open>localhost\<close>, port 6600. Its
  guards test the truthiness of a field, not its presence.
\<close>

theorem C1_counterexample:
  "host (constructor () \<lparr>options_host = Some [], options_port = Some (Num 0),
           options_defaultVolume = None, options_enableRandom = None\<rparr>) = ''localhost''
   \<and> port (constructor () \<lparr>options_host = Some [], options_port = Some (Num 0),
           options_defaultVolume = None, options_enableRandom = None\<rparr>) = Num 6600"
  by (simp add: constructor_host constructor_port)

text \<open>
  C1, amended: the effective host, port and normal volume equal the override whenever the
  field is present and truthy (a host that is not empty, a port or volume that is neither
  0 nor NaN); host and port are \<^verbatim>\<open>localhost\<close> and 6600 when the field is absent or falsy,
  the volume is 80 when the field is absent, and the random flag is true when the field
  is absent or true.
\<close>

theorem C1_constructor_settings:
  "(options_host opts = Some h \<and> h \<noteq> [] \<longrightarrow> host (constructor d opts) = h)
   \<and> (options_host opts = None \<or> options_host opts = Some [] \<longrightarrow>
        host (constructor d opts) = ''localhost'')
   \<and> (options_port opts = Some p \<and> p \<noteq> Num 0 \<and> p \<noteq> NaN \<longrightarrow>
        port (constructor d opts) = p)
   \<and> (options_port opts = None \<or> options_port opts = Some (Num 0)
        \<or> options_port opts = Some NaN \<longrightarrow>
        port (constructor d opts) = Num 6600)
   \<and> (options_defaultVolume opts = Some v \<and> v \<noteq> Num 0 \<and> v \<noteq> NaN \<longrightarrow>
        volume (constructor d opts) = v)
   \<and> (options_defaultVolume opts = None \<longrightarrow> volume (constructor d opts) = Num 80)
   \<and> (options_enableRandom opts = None \<or> options_enableRandom opts = Some True \<longrightarrow>
        enableRandom (constructor d opts) = True)"
  by (auto simp: constructor_host constructor_port constructor_volume
        constructor_enableRandom truthy_number_iff)

theorem C1_constructor_settings_witness:
  "host (constructor () \<lparr>options_host = Some ''mpd.local'', options_port = Some (Num 6601),
           options_defaultVolume = Some (Num 55), options_enableRandom = Some True\<rparr>)
     = ''mpd.local''
   \<and> port (constructor () \<lparr>options_host = Some ''mpd.local'', options_port = Some (Num 6601),
           options_defaultVolume = Some (Num 55), options_enableRandom = Some True\<rparr>)
     = Num 6601
   \<and> volume (constructor () \<lparr>options_host = Some ''mpd.local'', options_port = Some (Num 6601),
           options_defaultVolume = Some (Num 55), options_enableRandom = Some True\<rparr>)
     = Num 55
   \<and> enableRandom (constructor () \<lparr>options_host = Some ''mpd.local'',
           options_port = Some (Num 6601), options_defaultVolume = Some (Num 55),
           options_enableRandom = Some True\<rparr>)
     = True
   \<and> host (constructor () no_options) = ''localhost''
   \<and> port (constructor () no_options) = Num 6600
   \<and> volume (constructor () no_options) = Num 80
   \<and> enableRandom (constructor () no_options) = True"
  using C1_constructor_settings [where opts = "\<lparr>options_host = Some ''mpd.local'',
           options_port = Some (Num 6601), options_defaultVolume = Some (Num 55),
           options_enableRandom = Some True\<rparr>"
           and h = "''mpd.local''" and d = "()" and p = "Num 6601" and v = "Num 55"]
        C1_constructor_settings [where opts = no_options and h = "[]" and d = "()"
           and p = NaN and v = NaN]
  by (simp add: no_options_def)

subsection \<open>C2: the socket events\<close>

text \<open>
  C2: after a \<^verbatim>\<open>socket-error\<close> event the readiness flag is false and the condition
  \<^verbatim>\<open>mpdConnectionFailed\<close> is signalled; after a \<^verbatim>\<open>socket-end\<close> event the flag is false and
  \<^verbatim>\<open>mpdConnectionEnd\<close> is signalled. The code does all of it but for the name of the
  first condition: the listener throws \<^verbatim>\<open>mpdConnectionFaild\<close>, which is another name.
\<close>

theorem C2_socket_events:
  "listener mpc ''socket-error'' this
     = (Inl (Error ''mpdConnectionFaild''), this\<lparr>isReady := False\<rparr>)
   \<and> Error ''mpdConnectionFaild'' \<noteq> Error ''mpdConnectionFailed''
   \<and> listener mpc ''socket-end'' this
     = (Inl (Error ''mpdConnectionEnd''), this\<lparr>isReady := False\<rparr>)"
  by (simp add: listener_def throw_def)

subsection \<open>C3: a playlist from search criteria\<close>

text \<open>
  C3, as stated, fails: when the search finds a song and the client then rejects the
  command that clears the playlist, \<^verbatim>\<open>createPlayListIfPossible("X")\<close> has sent the search
  and the clear, returns the client's rejection, and never sends search-add.
\<close>

theorem C3_counterexample:
  "database_search mpc_clear_fails [(''Title'', ''X''), (''Album'', []), (''Artist'', [])]
     = Inr [Song ''a.mp3'']
   \<and> fst (createPlayListIfPossible mpc_clear_fails (Some ''X'') None None
            (constructor () no_options))
     = Inl (Rejected (MPCError ''Connection closed''))
   \<and> issued (constructor () no_options)
        (snd (createPlayListIfPossible mpc_clear_fails (Some ''X'') None None
               (constructor () no_options)))
     = [Search [(''Title'', ''X''), (''Album'', []), (''Artist'', [])], Clear]
   \<and> count_list
        (issued (constructor () no_options)
           (snd (createPlayListIfPossible mpc_clear_fails (Some ''X'') None None
                  (constructor () no_options))))
        (SearchAdd [(''Title'', ''X''), (''Album'', []), (''Artist'', [])])
     = 0"
  by (simp add: createPlayListIfPossible_cases issued_def mpc_clear_fails_def mpc_playing_def)

text \<open>
  C3, amended: for all inputs (song, album, artist), \<^verbatim>\<open>createPlayListIfPossible\<close> first
  sends a database search with the criteria Title, Album, Artist, each value the empty
  string when the input is absent. If the search returns an empty list it fails with
  \<^verbatim>\<open>notFound\<close> and sends neither clear nor search-add. If it returns a non-empty list it
  sends clear once; when the clear succeeds it then sends search-add once with the same
  criteria and returns its result, and when the clear is rejected it returns that
  rejection and sends no search-add.
\<close>

theorem C3_createPlayListIfPossible:
  "let c = [(''Title'', case song of None \<Rightarrow> [] | Some s \<Rightarrow> s),
            (''Album'', case album of None \<Rightarrow> [] | Some s \<Rightarrow> s),
            (''Artist'', case artist of None \<Rightarrow> [] | Some s \<Rightarrow> s)];
       r = createPlayListIfPossible mpc song album artist this
   in take 1 (issued this (snd r)) = [Search c]
      \<and> (database_search mpc c = Inr [] \<longrightarrow>
           fst r = Inl (Error ''notFound'') \<and> issued this (snd r) = [Search c])
      \<and> (database_search mpc c = Inr res \<and> res \<noteq> [] \<and> currentPlaylist_clear mpc = Inr () \<longrightarrow>
           fst r = settle (database_searchAdd mpc c)
           \<and> issued this (snd r) = [Search c, Clear, SearchAdd c])
      \<and> (database_search mpc c = Inr res \<and> res \<noteq> [] \<and> currentPlaylist_clear mpc = Inl e \<longrightarrow>
           fst r = Inl (Rejected e) \<and> issued this (snd r) = [Search c, Clear])"
  by (simp add: createPlayListIfPossible_cases issued_def Let_def split: sum.splits)

theorem C3_createPlayListIfPossible_witness:
  "fst (createPlayListIfPossible mpc_nothing_found (Some ''X'') None None
          (constructor () no_options))
     = Inl (Error ''notFound'')
   \<and> issued (constructor () no_options)
        (snd (createPlayListIfPossible mpc_nothing_found (Some ''X'') None None
               (constructor () no_options)))
     = [Search [(''Title'', ''X''), (''Album'', []), (''Artist'', [])]]
   \<and> fst (createPlayListIfPossible mpc_playing (Some ''X'') None None
            (constructor () no_options))
     = Inr ()
   \<and> issued (constructor () no_options)
        (snd (createPlayListIfPossible mpc_playing (Some ''X'') None None
               (constructor () no_options)))
     = [Search [(''Title'', ''X''), (''Album'', []), (''Artist'', [])], Clear,
        SearchAdd [(''Title'', ''X''), (''Album'', []), (''Artist'', [])]]
   \<and> fst (createPlayListIfPossible mpc_clear_fails None (Some ''Y'') None
            (constructor () no_options))
     = Inl (Rejected (MPCError ''Connection closed''))
   \<and> issued (constructor () no_options)
        (snd (createPlayListIfPossible mpc_clear_fails None (Some ''Y'') None
               (constructor () no_options)))
     = [Search [(''Title'', []), (''Album'', ''Y''), (''Artist'', [])], Clear]"
  using C3_createPlayListIfPossible [where mpc = mpc_nothing_found and song = "Some ''X''"
          and album = None and artist = None and this = "constructor () no_options"
          and res = "[]" and e = "MPCError []"]
        C3_createPlayListIfPossible [where mpc = mpc_playing and song = "Some ''X''"
          and album = None and artist = None and this = "constructor () no_options"
          and res = "[Song ''a.mp3'']" and e = "MPCError []"]
        C3_createPlayListIfPossible [where mpc = mpc_clear_fails and song = None
          and album = "Some ''Y''" and artist = None and this = "constructor () no_options"
          and res = "[Song ''a.mp3'']" and e = "MPCError ''Connection closed''"]
  by (simp add: mpc_nothing_found_def mpc_clear_fails_def mpc_playing_def Let_def)

subsection \<open>C4: loading a stored playlist\<close>

text \<open>
  C4, as stated, fails: when the listing of \<^verbatim>\<open>my mix.m3u\<close> is not empty and the client
  then rejects the command that clears the playlist, \<^verbatim>\<open>loadPlaylistIfPossible("My Mix")\<close>
  has sent the listing and the clear, fails with \<^verbatim>\<open>notFound\<close>, and never sends the load.
\<close>

theorem C4_counterexample:
  "storedPlaylists_listPlaylist mpc_clear_fails ''my mix.m3u'' = Inr [''a.mp3'']
   \<and> fst (loadPlaylistIfPossible mpc_clear_fails ''My Mix'' (constructor () no_options))
     = Inl (Error ''notFound'')
   \<and> issued (constructor () no_options)
        (snd (loadPlaylistIfPossible mpc_clear_fails ''My Mix'' (constructor () no_options)))
     = [ListPlaylist ''my mix.m3u'', Clear]
   \<and> count_list
        (issued (constructor () no_options)
           (snd (loadPlaylistIfPossible mpc_clear_fails ''My Mix''
                  (constructor () no_options))))
        (Load ''my mix.m3u'')
     = 0"
  by (simp add: loadPlaylistIfPossible_fst loadPlaylistIfPossible_calls issued_def
        toLowerCase_My_Mix mpc_clear_fails_def mpc_playing_def Let_def)

text \<open>
  C4, amended: for every name, \<^verbatim>\<open>loadPlaylistIfPossible\<close> first asks the client for the
  listing of the file \<^verbatim>\<open>lowercase(name) + ".m3u"\<close>. If the listing is empty or is
  rejected, it fails with \<^verbatim>\<open>notFound\<close> and sends nothing more. If the listing is not empty
  it sends clear; when the clear is rejected it fails with \<^verbatim>\<open>notFound\<close> and sends no load
  (in both failures the original error is not surfaced), and when the clear succeeds it
  then sends the load of the same file, whose result it returns.
\<close>

theorem C4_loadPlaylistIfPossible:
  "let file = toLowerCase name @ ''.m3u'';
       r = loadPlaylistIfPossible mpc name this
   in take 1 (issued this (snd r)) = [ListPlaylist file]
      \<and> (storedPlaylists_listPlaylist mpc file = Inr []
           \<or> storedPlaylists_listPlaylist mpc file = Inl e \<longrightarrow>
           fst r = Inl (Error ''notFound'') \<and> issued this (snd r) = [ListPlaylist file])
      \<and> (storedPlaylists_listPlaylist mpc file = Inr res \<and> res \<noteq> []
           \<and> currentPlaylist_clear mpc = Inl e \<longrightarrow>
           fst r = Inl (Error ''notFound'') \<and> issued this (snd r) = [ListPlaylist file, Clear])
      \<and> (storedPlaylists_listPlaylist mpc file = Inr res \<and> res \<noteq> []
           \<and> currentPlaylist_clear mpc = Inr () \<longrightarrow>
           fst r = settle (storedPlaylists_load mpc file)
           \<and> issued this (snd r) = [ListPlaylist file, Clear, Load file])"
  by (auto simp: loadPlaylistIfPossible_fst loadPlaylistIfPossible_calls issued_def Let_def
           split: sum.splits)

theorem C4_loadPlaylistIfPossible_witness:
  "fst (loadPlaylistIfPossible mpc_nothing_found ''My Mix'' (constructor () no_options))
     = Inl (Error ''notFound'')
   \<and> issued (constructor () no_options)
        (snd (loadPlaylistIfPossible mpc_nothing_found ''My Mix'' (constructor () no_options)))
     = [ListPlaylist ''my mix.m3u'']
   \<and> fst (loadPlaylistIfPossible mpc_clear_fails ''My Mix'' (constructor () no_options))
     = Inl (Error ''notFound'')
   \<and> issued (constructor () no_options)
        (snd (loadPlaylistIfPossible mpc_clear_fails ''My Mix'' (constructor () no_options)))
     = [ListPlaylist ''my mix.m3u'', Clear]
   \<and> fst (loadPlaylistIfPossible mpc_playing ''My Mix'' (constructor () no_options)) = Inr ()
   \<and> issued (constructor () no_options)
        (snd (loadPlaylistIfPossible mpc_playing ''My Mix'' (constructor () no_options)))
     = [ListPlaylist ''my mix.m3u'', Clear, Load ''my mix.m3u'']"
  using C4_loadPlaylistIfPossible [where mpc = mpc_nothing_found and name = "''My Mix''"
          and this = "constructor () no_options" and res = "[]" and e = "MPCError []"]
        C4_loadPlaylistIfPossible [where mpc = mpc_clear_fails and name = "''My Mix''"
          and this = "constructor () no_options" and res = "[''a.mp3'']"
          and e = "MPCError ''Connection closed''"]
        C4_loadPlaylistIfPossible [where mpc = mpc_playing and name = "''My Mix''"
          and this = "constructor () no_options" and res = "[''a.mp3'']"
          and e = "MPCError []"]
  by (simp add: toLowerCase_My_Mix mpc_nothing_found_def mpc_clear_fails_def mpc_playing_def
        Let_def)

subsection \<open>C5: the playing info\<close>

text \<open>
  C5: \<^verbatim>\<open>getPlayingInfo\<close> fails with \<^verbatim>\<open>nothingPlaying\<close> exactly when the status that the
  client returns has the state \<^verbatim>\<open>stop\<close> or \<^verbatim>\<open>pause\<close>, and then the current-song query is
  never sent; for every other state it sends the current-song query and returns its
  result.
\<close>

theorem C5_getPlayingInfo:
  "(fst (getPlayingInfo mpc this) = Inl (Error ''nothingPlaying'')
      \<longleftrightarrow> (\<exists>res. status_status mpc = Inr res
                \<and> (state res = ''stop'' \<or> state res = ''pause'')))
   \<and> (status_status mpc = Inr res \<and> (state res = ''stop'' \<or> state res = ''pause'') \<longrightarrow>
        issued this (snd (getPlayingInfo mpc this)) = [Status])
   \<and> (status_status mpc = Inr res \<and> state res \<noteq> ''stop'' \<and> state res \<noteq> ''pause'' \<longrightarrow>
        fst (getPlayingInfo mpc this) = settle (status_currentSong mpc)
        \<and> issued this (snd (getPlayingInfo mpc this)) = [Status, CurrentSong])"
  by (auto simp: getPlayingInfo_cases issued_def split: sum.splits)

theorem C5_getPlayingInfo_witness:
  "fst (getPlayingInfo mpc_paused (constructor () no_options)) = Inl (Error ''nothingPlaying'')
   \<and> issued (constructor () no_options)
        (snd (getPlayingInfo mpc_paused (constructor () no_options))) = [Status]
   \<and> fst (getPlayingInfo mpc_playing (constructor () no_options)) = Inr (Song ''a.mp3'')
   \<and> issued (constructor () no_options)
        (snd (getPlayingInfo mpc_playing (constructor () no_options))) = [Status, CurrentSong]"
  using C5_getPlayingInfo [where mpc = mpc_paused and this = "constructor () no_options"
          and res = "\<lparr>state = ''pause''\<rparr>"]
        C5_getPlayingInfo [where mpc = mpc_playing and this = "constructor () no_options"
          and res = "\<lparr>state = ''play''\<rparr>"]
  by (simp add: mpc_paused_def mpc_playing_def)

subsection \<open>C6: the ready event\<close>

text \<open>
  C6: after the \<^verbatim>\<open>ready\<close> event the readiness flag is true, a set-volume command with the
  stored normal volume has been sent, and a stop command has been sent exactly once; the
  stored normal volume is the same as before.
\<close>

theorem C6_ready:
  "isReady (snd (listener mpc ''ready'' this)) = True
   \<and> issued this (snd (listener mpc ''ready'' this)) = [SetVolume (volume this), Stop]
   \<and> count_list (issued this (snd (listener mpc ''ready'' this))) Stop = 1
   \<and> volume (snd (listener mpc ''ready'' this)) = volume this"
  by (simp add: method_defs issued_def Let_def)

subsection \<open>C7: saving the volume\<close>

text \<open>
  C7: for every level \<open>v\<close>, \<^verbatim>\<open>saveVolume(v)\<close> stores \<open>v\<close> as the normal volume and sends
  exactly one set-volume command, with \<open>v\<close>; \<^verbatim>\<open>setVolumeToNormal()\<close> after it sends a
  set-volume command with the same \<open>v\<close> and changes no field of the object (only the
  record of the commands sent grows).
\<close>

theorem C7_saveVolume:
  "snd (saveVolume mpc v this) = this\<lparr>volume := v, calls := calls this @ [SetVolume v]\<rparr>
   \<and> issued this (snd (saveVolume mpc v this)) = [SetVolume v]
   \<and> snd (setVolumeToNormal mpc' (snd (saveVolume mpc v this)))
       = (snd (saveVolume mpc v this))
           \<lparr>calls := calls (snd (saveVolume mpc v this)) @ [SetVolume v]\<rparr>
   \<and> issued (snd (saveVolume mpc v this))
        (snd (setVolumeToNormal mpc' (snd (saveVolume mpc v this)))) = [SetVolume v]"
  by (simp add: method_defs issued_def Let_def)

subsection \<open>C8: silence and back\<close>

text \<open>
  C8: \<^verbatim>\<open>setVolumeToSilence()\<close> sends a set-volume command with the stored silence level
  and \<^verbatim>\<open>setVolumeToNormal()\<close> one with the stored normal level; after either, the normal
  volume, the silence volume, the random flag, the host and the port are what they were
  (the object differs only in the record of the commands sent).
\<close>

theorem C8_setVolumeTo:
  "snd (setVolumeToSilence mpc this)
     = this\<lparr>calls := calls this @ [SetVolume (volumeSilence this)]\<rparr>
   \<and> snd (setVolumeToNormal mpc this)
     = this\<lparr>calls := calls this @ [SetVolume (volume this)]\<rparr>
   \<and> issued this (snd (setVolumeToSilence mpc this)) = [SetVolume (volumeSilence this)]
   \<and> issued this (snd (setVolumeToNormal mpc this)) = [SetVolume (volume this)]
   \<and> volume (snd (setVolumeToSilence mpc this)) = volume this
   \<and> volumeSilence (snd (setVolumeToSilence mpc this)) = volumeSilence this
   \<and> enableRandom (snd (setVolumeToSilence mpc this)) = enableRandom this
   \<and> host (snd (setVolumeToSilence mpc this)) = host this
   \<and> port (snd (setVolumeToSilence mpc this)) = port this
   \<and> volume (snd (setVolumeToNormal mpc this)) = volume this
   \<and> volumeSilence (snd (setVolumeToNormal mpc this)) = volumeSilence this
   \<and> enableRandom (snd (setVolumeToNormal mpc this)) = enableRandom this
   \<and> host (snd (setVolumeToNormal mpc this)) = host this
   \<and> port (snd (setVolumeToNormal mpc this)) = port this"
  by (simp add: method_defs issued_def)

subsection \<open>C9: the silence level and the random flag\<close>

text \<open>
  C9: after construction, whatever methods are called and whatever events arrive, in any
  order and with any answers of the client, the silence level is 20 and the random flag
  has the value it had after construction. No operation reads the random flag: run from
  an object with another value of the flag, an operation returns the same result and
  leaves the same object, but for the flag.
\<close>

theorem C9_silence_and_random:
  "volumeSilence (run steps (constructor d opts)) = Num 20
   \<and> enableRandom (run steps (constructor d opts)) = enableRandom (constructor d opts)
   \<and> exec mpc x (this\<lparr>enableRandom := b\<rparr>)
       = (fst (exec mpc x this), (snd (exec mpc x this))\<lparr>enableRandom := b\<rparr>)"
  by (simp add: run_frame constructor_volumeSilence exec_ignores_enableRandom)

subsection \<open>C10: an error of the load\<close>

text \<open>
  C10: in \<^verbatim>\<open>loadPlaylistIfPossible\<close>, when the listing is not empty and the clear
  succeeds, a rejection of the final load reaches the caller as it is, not as
  \<^verbatim>\<open>notFound\<close>; a rejection of the listing or of the clear, which come before the load, is
  turned into \<^verbatim>\<open>notFound\<close>.
\<close>

theorem C10_load_error:
  "let file = toLowerCase name @ ''.m3u'';
       r = loadPlaylistIfPossible mpc name this
   in (storedPlaylists_listPlaylist mpc file = Inr res \<and> res \<noteq> []
         \<and> currentPlaylist_clear mpc = Inr ()
         \<and> storedPlaylists_load mpc file = Inl e \<longrightarrow>
         fst r = Inl (Rejected e) \<and> fst r \<noteq> Inl (Error ''notFound''))
      \<and> (storedPlaylists_listPlaylist mpc file = Inl e
           \<or> (storedPlaylists_listPlaylist mpc file = Inr res \<and> res \<noteq> []
                \<and> currentPlaylist_clear mpc = Inl e) \<longrightarrow>
         fst r = Inl (Error ''notFound''))"
  by (auto simp: loadPlaylistIfPossible_fst Let_def)

theorem C10_load_error_witness:
  "fst (loadPlaylistIfPossible mpc_load_fails ''My Mix'' (constructor () no_options))
     = Inl (Rejected (MPCError ''No such playlist''))
   \<and> fst (loadPlaylistIfPossible mpc_clear_fails ''My Mix'' (constructor () no_options))
     = Inl (Error ''notFound'')"
  using C10_load_error [where mpc = mpc_load_fails and name = "''My Mix''"
          and this = "constructor () no_options" and res = "[''a.mp3'']"
          and e = "MPCError ''No such playlist''"]
        C10_load_error [where mpc = mpc_clear_fails and name = "''My Mix''"
          and this = "constructor () no_options" and res = "[''a.mp3'']"
          and e = "MPCError ''Connection closed''"]
  by (simp add: toLowerCase_My_Mix mpc_load_fails_def mpc_clear_fails_def mpc_playing_def
        Let_def)

end
